theory Spec2Isabelle
  imports Main
begin

section \<open>Index operations of the neo4j client (index.go)\<close>

text \<open>
  A shallow embedding of \<^verbatim>\<open>index.go\<close>. Go returns pairs \<open>(value, error)\<close>
  in which both components may be present, so a returned pair is a HOL pair whose second
  component is an \<open>error option\<close> (\<open>None\<close> is Go's \<open>nil\<close>). A nil-pointer
  dereference is the outcome \<open>Panic\<close>. The transport \<open>db.rc.Do\<close> belongs to
  another package: it is the field \<open>rc\<close> of the database handle, a function from the
  request and the state of the outside world to the reply and the new state.
\<close>

subsection \<open>Errors and outcomes\<close>

text \<open>
  \<open>NotFound\<close> and \<open>BadResponse\<close> are the package's error values; \<open>Other\<close>
  stands for every error made outside the package (by the URL parser or by the transport).
\<close>

datatype error = NotFound | BadResponse | Other string

datatype 'a outcome = Panic | Return 'a

subsection \<open>Data\<close>

text \<open>The response body of an index, \<^verbatim>\<open>indexResponse\<close> (index.go, lines 170-175).\<close>

record indexResponse =
  resp_HrefTemplate :: string
  resp_Provider :: string
  resp_IndexType :: string
  resp_LowerCase :: string

definition new_indexResponse :: indexResponse where
  "new_indexResponse =
     \<lparr>resp_HrefTemplate = '''', resp_Provider = '''', resp_IndexType = '''', resp_LowerCase = ''''\<rparr>"

text \<open>The payload types \<^verbatim>\<open>c\<close> and \<^verbatim>\<open>p\<close> of createIndex (lines 27-34).\<close>

record c =
  Type :: string
  Provider_c :: string

record p =
  Name_p :: string
  Config :: c

text \<open>The payload type \<^verbatim>\<open>s\<close> of Add (lines 226-230).\<close>

record s =
  Uri :: string
  Key :: string
  Value :: string

datatype data = NoData | CreateData p | AddData s

text \<open>
  The \<^verbatim>\<open>Result\<close> field of a request is a pointer the transport decodes the
  response body into. \<open>slot\<close> says which pointer the request carries, and the field
  \<open>body\<close> of a reply is the decoded response body, which reaches the caller through
  that pointer only. The map of \<^verbatim>\<open>indexes\<close> is given as the list of its
  entries in the order the range loop visits them.
\<close>

datatype slot = NoSlot | IndexSlot | IndexMapSlot | NodeListSlot

datatype 'r decoded =
  NoResult
  | IndexResult indexResponse
  | IndexMapResult "(string \<times> indexResponse) list"
  | NodeListResult "'r list"

record request =
  Url :: string
  Method :: string
  Data :: data
  Result :: slot
  Error :: bool
  ExpectedStatus :: int

record 'r reply =
  status :: int
  err :: "error option"
  body :: "'r decoded"

text \<open>The part of \<^verbatim>\<open>Database\<close> that index.go reads.\<close>

record ('r, 'w) Database =
  HrefNodeIndex :: string
  rc :: "request \<Rightarrow> 'w \<Rightarrow> 'r reply \<times> 'w"

text \<open>The struct \<^verbatim>\<open>index\<close> (lines 149-157); \<open>db\<close> is a pointer and may be nil.\<close>

record ('r, 'w) index =
  db :: "('r, 'w) Database option"
  Name :: string
  HrefTemplate :: string
  Provider :: string
  IndexType :: string
  CaseSensitive :: bool
  HrefIndex :: string

definition new_index :: "('r, 'w) index" where
  "new_index =
     \<lparr>db = None, Name = '''', HrefTemplate = '''', Provider = '''', IndexType = '''',
      CaseSensitive = False, HrefIndex = ''''\<rparr>"

datatype ('r, 'w) NodeIndex = NodeIndex_of "('r, 'w) index"

text \<open>
  Modelled from the spec: \<^verbatim>\<open>Node\<close> is declared outside index.go. The spec's
  EntityRef is "its integer identifier and its canonical self-link"; index.go reads
  \<^verbatim>\<open>n.HrefSelf\<close>, calls \<^verbatim>\<open>n.Id()\<close> (the field \<open>Id_Node\<close>) and assigns \<^verbatim>\<open>n.db\<close>.
\<close>

record ('r, 'w) Node =
  Node_db :: "('r, 'w) Database option"
  HrefSelf :: string
  Id_Node :: int

definition new_Node :: "('r, 'w) Node" where
  "new_Node = \<lparr>Node_db = None, HrefSelf = '''', Id_Node = 0\<rparr>"

text \<open>
  What index.go calls and does not define, as parameters: \<^verbatim>\<open>url.ParseRequestURI\<close>
  followed by \<^verbatim>\<open>String()\<close> on its result (\<open>Inl\<close> is the parse error, and then the
  URL pointer is nil), the escaping of \<^verbatim>\<open>url.Values.Encode\<close>, and
  \<^verbatim>\<open>Node.populate\<close>.
\<close>

record ('r, 'w) env =
  ParseRequestURI :: "string \<Rightarrow> error + string"
  QueryEscape :: "string \<Rightarrow> string"
  populate_Node :: "'r \<Rightarrow> ('r, 'w) Node \<Rightarrow> ('r, 'w) Node"

subsection \<open>Helpers from outside index.go\<close>

text \<open>\<^verbatim>\<open>strings.Join\<close>.\<close>

fun Join :: "string list \<Rightarrow> string \<Rightarrow> string" where
  "Join [] sep = []"
| "Join [x] sep = x"
| "Join (x # y # ys) sep = x @ sep @ Join (y # ys) sep"

text \<open>
  Modelled from the spec: \<^verbatim>\<open>join\<close> is defined outside index.go. The spec's Path
  Composer concatenates the segments "with exactly one separator between segments", and
  "segments that are the empty string are dropped entirely".
\<close>

definition join :: "string list \<Rightarrow> string" where
  "join fragments = Join (filter (\<lambda>v. v \<noteq> '''') fragments) ''/''"

text \<open>\<^verbatim>\<open>strconv.Itoa\<close>: the decimal digits, with a minus sign below zero.\<close>

fun digits :: "nat \<Rightarrow> string" where
  "digits n =
     (if n < 10 then [''0123456789'' ! n]
      else digits (n div 10) @ [''0123456789'' ! (n mod 10)])"

definition Itoa :: "int \<Rightarrow> string" where
  "Itoa i = (if i < 0 then ''-'' @ digits (nat (- i)) else digits (nat i))"

text \<open>
  \<^verbatim>\<open>json.Marshal\<close> on the payload types, by their field tags. A field tagged
  \<^verbatim>\<open>omitempty\<close> is left out when its value is empty, and encoding/json counts as
  empty false, 0, a nil pointer or interface, and an array, slice, map or string of length
  zero: a struct value is never empty.
\<close>

datatype json = JString string | JObject "(string \<times> json) list"

datatype gvalue = StringValue string | StructValue "(string \<times> json) list"

fun isEmptyValue :: "gvalue \<Rightarrow> bool" where
  "isEmptyValue (StringValue v) = (length v = 0)"
| "isEmptyValue (StructValue fs) = False"

fun encode :: "gvalue \<Rightarrow> json" where
  "encode (StringValue v) = JString v"
| "encode (StructValue fs) = JObject fs"

definition field :: "string \<Rightarrow> bool \<Rightarrow> gvalue \<Rightarrow> (string \<times> json) list" where
  "field name omitempty v = (if omitempty \<and> isEmptyValue v then [] else [(name, encode v)])"

definition fields_c :: "c \<Rightarrow> (string \<times> json) list" where
  "fields_c v =
     field ''type'' True (StringValue (Type v)) @
     field ''provider'' True (StringValue (Provider_c v))"

definition fields_p :: "p \<Rightarrow> (string \<times> json) list" where
  "fields_p v =
     field ''name'' False (StringValue (Name_p v)) @
     field ''config'' True (StructValue (fields_c (Config v)))"

definition fields_s :: "s \<Rightarrow> (string \<times> json) list" where
  "fields_s v =
     field ''uri'' False (StringValue (Uri v)) @
     field ''key'' False (StringValue (Key v)) @
     field ''value'' False (StringValue (Value v))"

fun Marshal :: "data \<Rightarrow> json option" where
  "Marshal NoData = None"
| "Marshal (CreateData v) = Some (JObject (fields_p v))"
| "Marshal (AddData v) = Some (JObject (fields_s v))"

subsection \<open>populate (lines 159-168)\<close>

definition populate :: "('r, 'w) index \<Rightarrow> indexResponse \<Rightarrow> ('r, 'w) index" where
  "populate ni res =
     (let ni = ni\<lparr>HrefTemplate := resp_HrefTemplate res\<rparr>;
          ni = ni\<lparr>Provider := resp_Provider res\<rparr>;
          ni = ni\<lparr>IndexType := resp_IndexType res\<rparr>
      in if resp_LowerCase res = ''true''
         then ni\<lparr>CaseSensitive := False\<rparr>
         else ni\<lparr>CaseSensitive := True\<rparr>)"

text \<open>
  What the variable behind a request's \<^verbatim>\<open>Result\<close> pointer holds after the
  call: the decoded body when it is of the pointer's type, the value from before the call
  otherwise.
\<close>

fun read_index :: "indexResponse \<Rightarrow> 'r decoded \<Rightarrow> indexResponse" where
  "read_index old (IndexResult r) = r"
| "read_index old _ = old"

fun read_index_map ::
  "(string \<times> indexResponse) list \<Rightarrow> 'r decoded \<Rightarrow> (string \<times> indexResponse) list" where
  "read_index_map old (IndexMapResult m) = m"
| "read_index_map old _ = old"

fun read_node_list :: "'r list \<Rightarrow> 'r decoded \<Rightarrow> 'r list" where
  "read_node_list old (NodeListResult rs) = rs"
| "read_node_list old _ = old"

subsection \<open>createIndex and CreateNodeIndex (lines 13-64)\<close>

definition createIndex ::
  "('r, 'w) Database \<Rightarrow> string \<Rightarrow> string \<Rightarrow> string \<Rightarrow> string \<Rightarrow> 'w
     \<Rightarrow> (('r, 'w) index \<times> error option) \<times> 'w" where
  "createIndex d href name idxType provider w =
     (let idx = new_index\<lparr>db := Some d\<rparr>;
          idx = idx\<lparr>Name := name\<rparr>;
          payload = \<lparr>Name_p = name, Config = \<lparr>Type = '''', Provider_c = ''''\<rparr>\<rparr>;
          payload = (if idxType \<noteq> '''' \<or> provider \<noteq> ''''
                     then payload\<lparr>Config := \<lparr>Type = idxType, Provider_c = provider\<rparr>\<rparr>
                     else payload);
          rr = \<lparr>Url = href, Method = ''POST'', Data = CreateData payload,
                Result = IndexSlot, Error = True, ExpectedStatus = 201\<rparr>;
          (rep, w') = rc d rr w;
          res = read_index new_indexResponse (body rep)
      in case err rep of
           Some e \<Rightarrow> ((idx, Some e), w')
         | None \<Rightarrow> (((populate idx res)\<lparr>HrefIndex := href\<rparr>, None), w'))"

definition CreateNodeIndex ::
  "('r, 'w) Database \<Rightarrow> string \<Rightarrow> string \<Rightarrow> string \<Rightarrow> 'w
     \<Rightarrow> (('r, 'w) NodeIndex option \<times> error option) \<times> 'w" where
  "CreateNodeIndex d name idxType provider w =
     (let ((idx, e), w') = createIndex d (HrefNodeIndex d) name idxType provider w
      in case e of
           Some x \<Rightarrow> ((None, Some x), w')
         | None \<Rightarrow> ((Some (NodeIndex_of idx), None), w'))"

subsection \<open>indexes and NodeIndexes (lines 66-105)\<close>

text \<open>The range loop of \<^verbatim>\<open>indexes\<close> (lines 97-103).\<close>

fun indexes_loop ::
  "('r, 'w) Database \<Rightarrow> ('r, 'w) index list \<Rightarrow> (string \<times> indexResponse) list
     \<Rightarrow> ('r, 'w) index list" where
  "indexes_loop d nis [] = nis"
| "indexes_loop d nis ((name, r) # res) =
     (let n = new_index\<lparr>db := Some d\<rparr>;
          n = n\<lparr>Name := name\<rparr>;
          n = populate n r
      in indexes_loop d (nis @ [n]) res)"

definition indexes ::
  "('r, 'w) Database \<Rightarrow> string \<Rightarrow> 'w \<Rightarrow> (('r, 'w) index list \<times> error option) \<times> 'w" where
  "indexes d href w =
     (let nis = [];
          req = \<lparr>Url = href, Method = ''GET'', Data = NoData,
                 Result = IndexMapSlot, Error = True, ExpectedStatus = 0\<rparr>;
          (rep, w') = rc d req w;
          res = read_index_map [] (body rep)
      in case err rep of
           Some e \<Rightarrow> ((nis, Some e), w')
         | None \<Rightarrow>
             if status rep \<noteq> 200 then ((nis, Some BadResponse), w')
             else ((indexes_loop d nis res, None), w'))"

definition NodeIndexes ::
  "('r, 'w) Database \<Rightarrow> 'w \<Rightarrow> (('r, 'w) NodeIndex list option \<times> error option) \<times> 'w" where
  "NodeIndexes d w =
     (let ((idxs, e), w') = indexes d (HrefNodeIndex d) w
      in case e of
           Some x \<Rightarrow> ((None, Some x), w')
         | None \<Rightarrow> ((Some (map NodeIndex_of idxs), None), w'))"

subsection \<open>index and NodeIndex (lines 107-147)\<close>

definition index ::
  "('r, 'w) env \<Rightarrow> ('r, 'w) Database \<Rightarrow> string \<Rightarrow> string \<Rightarrow> 'w
     \<Rightarrow> (('r, 'w) index \<times> error option) \<times> 'w" where
  "index env d href name w =
     (let idx = new_index;
          resp = new_indexResponse;
          idx = idx\<lparr>Name := name\<rparr>;
          baseUri = href;
          rawurl = join [baseUri, name]
      in case ParseRequestURI env rawurl of
           Inl e \<Rightarrow> ((idx, Some e), w)
         | Inr u \<Rightarrow>
             (let req = \<lparr>Url = u, Method = ''GET'', Data = NoData,
                         Result = NoSlot, Error = True, ExpectedStatus = 0\<rparr>;
                  (rep, w') = rc d req w
              in case err rep of
                   Some e \<Rightarrow> ((idx, Some e), w')
                 | None \<Rightarrow>
                     if status rep = 200 then ((populate idx resp, None), w')
                     else if status rep = 404 then ((idx, Some NotFound), w')
                     else ((idx, Some BadResponse), w')))"

definition NodeIndex ::
  "('r, 'w) env \<Rightarrow> ('r, 'w) Database \<Rightarrow> string \<Rightarrow> 'w
     \<Rightarrow> (('r, 'w) NodeIndex option \<times> error option) \<times> 'w" where
  "NodeIndex env d name w =
     (let ((idx, e), w') = index env d (HrefNodeIndex d) name w
      in case e of
           Some x \<Rightarrow> ((None, Some x), w')
         | None \<Rightarrow> ((Some (NodeIndex_of idx), None), w'))"

subsection \<open>uri (lines 187-192)\<close>

text \<open>
  \<^verbatim>\<open>return u.String(), err\<close> evaluates \<^verbatim>\<open>u.String()\<close> whatever
  \<^verbatim>\<open>err\<close> is. When the parse failed \<^verbatim>\<open>u\<close> is nil, and
  \<^verbatim>\<open>(*URL).String\<close> reads the fields of its receiver.
\<close>

definition uri :: "('r, 'w) env \<Rightarrow> ('r, 'w) index \<Rightarrow> (string \<times> error option) outcome" where
  "uri env idx =
     (let s = join [HrefIndex idx, Name idx]
      in case ParseRequestURI env s of
           Inl e \<Rightarrow> Panic
         | Inr u \<Rightarrow> Return (u, None))"

subsection \<open>Delete, Add and Remove (lines 194-287)\<close>

definition Delete :: "('r, 'w) env \<Rightarrow> ('r, 'w) index \<Rightarrow> 'w \<Rightarrow> (error option \<times> 'w) outcome" where
  "Delete env idx w =
     (case uri env idx of
        Panic \<Rightarrow> Panic
      | Return (uri0, e0) \<Rightarrow>
          (case e0 of
             Some e \<Rightarrow> Return (Some e, w)
           | None \<Rightarrow>
               (let req = \<lparr>Url = uri0, Method = ''DELETE'', Data = NoData,
                           Result = NoSlot, Error = True, ExpectedStatus = 0\<rparr>
                in case db idx of
                     None \<Rightarrow> Panic
                   | Some d \<Rightarrow>
                       (let (rep, w') = rc d req w
                        in case err rep of
                             Some e \<Rightarrow> Return (Some e, w')
                           | None \<Rightarrow>
                               if status rep = 204 then Return (None, w')
                               else Return (Some BadResponse, w')))))"

definition Add ::
  "('r, 'w) env \<Rightarrow> ('r, 'w) index \<Rightarrow> ('r, 'w) Node \<Rightarrow> string \<Rightarrow> string \<Rightarrow> 'w
     \<Rightarrow> (error option \<times> 'w) outcome" where
  "Add env idx n key val w =
     (case uri env idx of
        Panic \<Rightarrow> Panic
      | Return (uri0, e0) \<Rightarrow>
          (case e0 of
             Some e \<Rightarrow> Return (Some e, w)
           | None \<Rightarrow>
               (let data = \<lparr>Uri = HrefSelf n, Key = key, Value = val\<rparr>;
                    req = \<lparr>Url = uri0, Method = ''POST'', Data = AddData data,
                           Result = NoSlot, Error = True, ExpectedStatus = 0\<rparr>
                in case db idx of
                     None \<Rightarrow> Panic
                   | Some d \<Rightarrow>
                       (let (rep, w') = rc d req w
                        in case err rep of
                             Some e \<Rightarrow> Return (Some e, w')
                           | None \<Rightarrow>
                               if status rep = 201 then Return (None, w')
                               else Return (Some BadResponse, w')))))"

definition Remove ::
  "('r, 'w) env \<Rightarrow> ('r, 'w) index \<Rightarrow> ('r, 'w) Node \<Rightarrow> string \<Rightarrow> string \<Rightarrow> 'w
     \<Rightarrow> (error option \<times> 'w) outcome" where
  "Remove env idx n key val w =
     (case uri env idx of
        Panic \<Rightarrow> Panic
      | Return (uri0, e0) \<Rightarrow>
          (case e0 of
             Some e \<Rightarrow> Return (Some e, w)
           | None \<Rightarrow>
               (let uri1 = (if key \<noteq> '''' then join [uri0, key, val] else uri0);
                    uri2 = join [uri1, Itoa (Id_Node n)];
                    req = \<lparr>Url = uri2, Method = ''DELETE'', Data = NoData,
                           Result = NoSlot, Error = True, ExpectedStatus = 0\<rparr>
                in case db idx of
                     None \<Rightarrow> Panic
                   | Some d \<Rightarrow>
                       (let (rep, w') = rc d req w
                        in case err rep of
                             Some e \<Rightarrow> Return (Some e, w')
                           | None \<Rightarrow>
                               if status rep = 204 then Return (None, w')
                               else Return (Some BadResponse, w')))))"

subsection \<open>Find and Query (lines 289-365)\<close>

type_synonym ('r, 'w) NodeMap = "int \<rightharpoonup> ('r, 'w) Node"

text \<open>The range loop that Find (lines 321-326) and Query (lines 358-363) both end with.\<close>

fun range_nodes ::
  "('r, 'w) env \<Rightarrow> ('r, 'w) Database option \<Rightarrow> ('r, 'w) NodeMap \<Rightarrow> 'r list
     \<Rightarrow> ('r, 'w) NodeMap" where
  "range_nodes env d nm [] = nm"
| "range_nodes env d nm (r # rs) =
     (let n = new_Node;
          n = n\<lparr>Node_db := d\<rparr>;
          n = populate_Node env r n
      in range_nodes env d (nm(Id_Node n \<mapsto> n)) rs)"

definition Find ::
  "('r, 'w) env \<Rightarrow> ('r, 'w) index \<Rightarrow> string \<Rightarrow> string \<Rightarrow> 'w
     \<Rightarrow> ((('r, 'w) NodeMap \<times> error option) \<times> 'w) outcome" where
  "Find env idx key val w =
     (let nm = Map.empty
      in case uri env idx of
           Panic \<Rightarrow> Panic
         | Return (rawurl0, e0) \<Rightarrow>
             (case e0 of
                Some e \<Rightarrow> Return ((nm, Some e), w)
              | None \<Rightarrow>
                  (let rawurl = join [rawurl0, key, val]
                   in case ParseRequestURI env rawurl of
                        Inl e \<Rightarrow> Return ((nm, Some e), w)
                      | Inr u \<Rightarrow>
                          (let req = \<lparr>Url = u, Method = ''GET'', Data = NoData,
                                      Result = NodeListSlot, Error = True, ExpectedStatus = 0\<rparr>
                           in case db idx of
                                None \<Rightarrow> Panic
                              | Some d \<Rightarrow>
                                  (let (rep, w') = rc d req w;
                                       resp = read_node_list [] (body rep)
                                   in case err rep of
                                        Some e \<Rightarrow> Return ((nm, Some e), w')
                                      | None \<Rightarrow>
                                          if status rep \<noteq> 200
                                          then Return ((nm, Some BadResponse), w')
                                          else Return
                                            ((range_nodes env (db idx) nm resp, None), w'))))))"

definition Query ::
  "('r, 'w) env \<Rightarrow> ('r, 'w) index \<Rightarrow> string \<Rightarrow> 'w
     \<Rightarrow> ((('r, 'w) NodeMap \<times> error option) \<times> 'w) outcome" where
  "Query env idx query w =
     (let nm = Map.empty
      in case uri env idx of
           Panic \<Rightarrow> Panic
         | Return (rawurl0, e0) \<Rightarrow>
             (case e0 of
                Some e \<Rightarrow> Return ((nm, Some e), w)
              | None \<Rightarrow>
                  (let rawurl = rawurl0 @ ''?'' @ (''query='' @ QueryEscape env query)
                   in case ParseRequestURI env rawurl of
                        Inl e \<Rightarrow> Return ((nm, Some e), w)
                      | Inr u \<Rightarrow>
                          (let req = \<lparr>Url = u, Method = ''GET'', Data = NoData,
                                      Result = NodeListSlot, Error = False, ExpectedStatus = 0\<rparr>
                           in case db idx of
                                None \<Rightarrow> Panic
                              | Some d \<Rightarrow>
                                  (let (rep, w') = rc d req w;
                                       result = read_node_list [] (body rep)
                                   in case err rep of
                                        Some e \<Rightarrow> Return ((nm, Some e), w')
                                      | None \<Rightarrow>
                                          if status rep \<noteq> 200
                                          then Return ((nm, Some BadResponse), w')
                                          else Return
                                            ((range_nodes env (db idx) nm result, None), w'))))))"

subsection \<open>Sample inputs\<close>

text \<open>
  Concrete inputs for the closed theorems below. \<open>recording f\<close> is a transport that
  answers each request \<open>req\<close> with \<open>f req\<close> and appends the request to the world,
  which is the list of the requests sent so far.
\<close>

definition recording ::
  "(request \<Rightarrow> 'r reply) \<Rightarrow> request \<Rightarrow> request list \<Rightarrow> 'r reply \<times> request list" where
  "recording f req sent = (f req, sent @ [req])"

text \<open>
  A parser that accepts the strings starting with \<^verbatim>\<open>http://\<close> or with a slash and
  returns them as they are, no escaping, and a node representation that is the pair of the
  identifier and the self-link.
\<close>

definition sample_env :: "(int \<times> string, request list) env" where
  "sample_env =
     \<lparr>ParseRequestURI =
        (\<lambda>v. if take 7 v = ''http://'' \<or> take 1 v = ''/'' then Inr v else Inl (Other v)),
      QueryEscape = (\<lambda>q. q),
      populate_Node = (\<lambda>r n. n\<lparr>HrefSelf := snd r, Id_Node := fst r\<rparr>)\<rparr>"

text \<open>
  A server that holds the index it is asked for, of type exact and provider lucene: a
  creation is answered 201 with the configuration sent, a deletion 204, a lookup 200 with
  three representations of two nodes, every other retrieval 200 with the index.
\<close>

definition sample_server :: "request \<Rightarrow> (int \<times> string) reply" where
  "sample_server req =
     (if Method req = ''POST'' then
        \<lparr>status = 201, err = None,
         body = (case Data req of
                   CreateData v \<Rightarrow>
                     IndexResult
                       \<lparr>resp_HrefTemplate = ''...'',
                        resp_Provider = Provider_c (Config v),
                        resp_IndexType = Type (Config v),
                        resp_LowerCase = ''false''\<rparr>
                 | _ \<Rightarrow> NoResult)\<rparr>
      else if Method req = ''DELETE'' then \<lparr>status = 204, err = None, body = NoResult\<rparr>
      else if Result req = NodeListSlot then
        \<lparr>status = 200, err = None,
         body = NodeListResult [(42, ''/node/42''), (7, ''/node/7''), (42, ''/node/42'')]\<rparr>
      else
        \<lparr>status = 200, err = None,
         body = IndexResult
                  \<lparr>resp_HrefTemplate = ''...'', resp_Provider = ''lucene'',
                   resp_IndexType = ''exact'', resp_LowerCase = ''true''\<rparr>\<rparr>)"

definition sample_db :: "(int \<times> string, request list) Database" where
  "sample_db = \<lparr>HrefNodeIndex = ''http://host/index'', rc = recording sample_server\<rparr>"

text \<open>A server that answers every request with the given status, and a transport that fails.\<close>

definition status_db :: "int \<Rightarrow> (int \<times> string, request list) Database" where
  "status_db n =
     \<lparr>HrefNodeIndex = ''http://host/index'',
      rc = recording (\<lambda>req. \<lparr>status = n, err = None, body = NoResult\<rparr>)\<rparr>"

definition failing_db :: "(int \<times> string, request list) Database" where
  "failing_db =
     \<lparr>HrefNodeIndex = ''http://host/index'',
      rc = recording (\<lambda>req. \<lparr>status = 0, err = Some (Other ''connection refused''),
                               body = NoResult\<rparr>)\<rparr>"

text \<open>The descriptor of the index people as createIndex leaves it, and a node.\<close>

definition people :: "(int \<times> string, request list) index" where
  "people =
     \<lparr>db = Some sample_db, Name = ''people'', HrefTemplate = ''...'', Provider = ''lucene'',
      IndexType = ''exact'', CaseSensitive = True, HrefIndex = ''http://host/index''\<rparr>"

definition node42 :: "(int \<times> string, request list) Node" where
  "node42 = \<lparr>Node_db = Some sample_db, HrefSelf = ''/node/42'', Id_Node = 42\<rparr>"

section \<open>Properties\<close>

subsection \<open>Auxiliary facts\<close>

lemma digits_not_Nil: "digits n \<noteq> []"
  by (subst digits.simps) simp

lemma Itoa_not_Nil: "Itoa i \<noteq> []"
  by (simp add: Itoa_def digits_not_Nil)

lemma join2: "a \<noteq> [] \<Longrightarrow> b \<noteq> [] \<Longrightarrow> join [a, b] = a @ ''/'' @ b"
  by (simp add: join_def)

lemma join3:
  "a \<noteq> [] \<Longrightarrow> b \<noteq> [] \<Longrightarrow> c \<noteq> [] \<Longrightarrow> join [a, b, c] = a @ ''/'' @ b @ ''/'' @ c"
  by (simp add: join_def)

lemma join3_empty_last: "a \<noteq> [] \<Longrightarrow> b \<noteq> [] \<Longrightarrow> join [a, b, []] = a @ ''/'' @ b"
  by (simp add: join_def)

lemma uri_Inr:
  "ParseRequestURI env (join [HrefIndex idx, Name idx]) = Inr self \<Longrightarrow>
     uri env idx = Return (self, None)"
  by (simp add: uri_def)

lemma uri_Inl:
  "ParseRequestURI env (join [HrefIndex idx, Name idx]) = Inl e \<Longrightarrow> uri env idx = Panic"
  by (simp add: uri_def)

lemma people_parse:
  "ParseRequestURI sample_env (join [HrefIndex people, Name people]) =
     Inr ''http://host/index/people''"
  by (simp add: sample_env_def people_def join_def)

lemma people_db: "db people = Some sample_db"
  by (simp add: people_def)

lemma people_uri_not_Nil: "''http://host/index/people'' \<noteq> []"
  by simp

lemma createIndex_people:
  "createIndex sample_db ''http://host/index'' ''people'' ''exact'' ''lucene'' [] =
     ((people, None),
      [\<lparr>Url = ''http://host/index'', Method = ''POST'',
        Data = CreateData
                 \<lparr>Name_p = ''people'', Config = \<lparr>Type = ''exact'', Provider_c = ''lucene''\<rparr>\<rparr>,
        Result = IndexSlot, Error = True, ExpectedStatus = 201\<rparr>])"
  by (simp add: createIndex_def sample_db_def recording_def sample_server_def populate_def
      new_index_def people_def Let_def)

text \<open>The loop of Find and Query: the keys, the entries, and which entry a key keeps.\<close>

lemma range_nodes_dom:
  "dom (range_nodes env d nm rs) =
     dom nm \<union> (\<lambda>r. Id_Node (populate_Node env r (new_Node\<lparr>Node_db := d\<rparr>))) ` set rs"
  by (induction rs arbitrary: nm) (auto simp add: Let_def)

lemma range_nodes_entry:
  "range_nodes env d nm rs k = Some n \<Longrightarrow>
     nm k = Some n \<or>
     (Id_Node n = k \<and> n \<in> (\<lambda>r. populate_Node env r (new_Node\<lparr>Node_db := d\<rparr>)) ` set rs)"
proof (induction rs arbitrary: nm)
  case Nil
  then show ?case by simp
next
  case (Cons r rs)
  let ?n = "populate_Node env r (new_Node\<lparr>Node_db := d\<rparr>)"
  from Cons.prems have "range_nodes env d (nm(Id_Node ?n \<mapsto> ?n)) rs k = Some n"
    by (simp add: Let_def)
  from Cons.IH [OF this] show ?case
    by (auto split: if_splits)
qed

lemma range_nodes_other:
  "k \<notin> (\<lambda>r. Id_Node (populate_Node env r (new_Node\<lparr>Node_db := d\<rparr>))) ` set rs \<Longrightarrow>
     range_nodes env d nm rs k = nm k"
  by (induction rs arbitrary: nm) (auto simp add: Let_def)

lemma range_nodes_last:
  "Id_Node (populate_Node env r (new_Node\<lparr>Node_db := d\<rparr>)) \<notin>
     (\<lambda>r. Id_Node (populate_Node env r (new_Node\<lparr>Node_db := d\<rparr>))) ` set rs2 \<Longrightarrow>
   range_nodes env d nm (rs1 @ r # rs2)
       (Id_Node (populate_Node env r (new_Node\<lparr>Node_db := d\<rparr>))) =
     Some (populate_Node env r (new_Node\<lparr>Node_db := d\<rparr>))"
proof (induction rs1 arbitrary: nm)
  case Nil
  then show ?case by (simp add: Let_def range_nodes_other)
next
  case (Cons a rs1)
  then show ?case by (simp add: Let_def)
qed

subsection \<open>Create followed by Get\<close>

text \<open>
  Claim C1: after CreateNodeIndex, NodeIndex with the same name returns a descriptor whose
  Name, Provider and IndexType are the ones supplied at creation.

  The code does not do this. \<^verbatim>\<open>index\<close> allocates \<^verbatim>\<open>resp\<close> and populates the
  descriptor from it, but its request carries no \<^verbatim>\<open>Result\<close> (createIndex and indexes
  pass theirs), so \<^verbatim>\<open>resp\<close> is still the zero value: whatever the server answers,
  Provider and IndexType of the descriptor are empty. With the sample server, the index people
  created with type exact and provider lucene comes back from NodeIndex with both empty, and
  the second request sent has no result slot.
\<close>

theorem Get_drops_response_body:
  "Provider (fst (fst (index env d href name w))) = '''' \<and>
   IndexType (fst (fst (index env d href name w))) = '''' \<and>
   (case CreateNodeIndex sample_db ''people'' ''exact'' ''lucene'' [] of
      ((created, e1), w1) \<Rightarrow>
        (case NodeIndex sample_env sample_db ''people'' w1 of
           ((got, e2), w2) \<Rightarrow>
             e1 = None \<and> e2 = None \<and>
             map_option (\<lambda>x. case x of NodeIndex_of i \<Rightarrow> (Name i, Provider i, IndexType i))
                 created =
               Some (''people'', ''lucene'', ''exact'') \<and>
             map_option (\<lambda>x. case x of NodeIndex_of i \<Rightarrow> (Name i, Provider i, IndexType i))
                 got =
               Some (''people'', '''', '''') \<and>
             map (\<lambda>r. (Method r, Url r, Result r)) w2 =
               [(''POST'', ''http://host/index'', IndexSlot),
                (''GET'', ''http://host/index/people'', NoSlot)]))"
proof -
  have a: "Provider (fst (fst (index env d href name w))) = '''' \<and>
      IndexType (fst (fst (index env d href name w))) = ''''"
    by (simp add: index_def populate_def new_index_def new_indexResponse_def Let_def
        split: sum.splits prod.splits option.splits)
  have h: "HrefNodeIndex sample_db = ''http://host/index''"
    by (simp add: sample_db_def)
  have b: "CreateNodeIndex sample_db ''people'' ''exact'' ''lucene'' [] =
     ((Some (NodeIndex_of people), None),
      [\<lparr>Url = ''http://host/index'', Method = ''POST'',
        Data = CreateData
                 \<lparr>Name_p = ''people'', Config = \<lparr>Type = ''exact'', Provider_c = ''lucene''\<rparr>\<rparr>,
        Result = IndexSlot, Error = True, ExpectedStatus = 201\<rparr>])"
    by (simp add: CreateNodeIndex_def h createIndex_people)
  show ?thesis
    apply (rule conjI [OF conjunct1 [OF a]])
    apply (rule conjI [OF conjunct2 [OF a]])
    apply (simp only: b)
    apply (simp add: NodeIndex_def index_def sample_env_def sample_db_def recording_def
        sample_server_def populate_def new_index_def new_indexResponse_def join_def people_def
        Let_def)
    done
qed

subsection \<open>Remove with an empty key\<close>

text \<open>
  Claim C2, as amended: with an empty key, Remove does not reject a non-empty value. The
  guard \<^verbatim>\<open>if key != ""\<close> skips key and value together, so the value is ignored: the
  call does what the call with both empty does, and sends the DELETE request for the path
  made of the index's URI and the node's identifier.
\<close>

theorem Remove_empty_key_ignores_value:
  assumes "ParseRequestURI env (join [HrefIndex idx, Name idx]) = Inr self"
      and "self \<noteq> []" and "db idx = Some d"
  shows "Remove env idx n [] val w = Remove env idx n [] [] w \<and>
     Remove env idx n [] val w =
     (case rc d \<lparr>Url = self @ ''/'' @ Itoa (Id_Node n),
                  Method = ''DELETE'', Data = NoData, Result = NoSlot, Error = True,
                  ExpectedStatus = 0\<rparr> w of
        (rep, w') \<Rightarrow>
          Return (case err rep of
                    Some e \<Rightarrow> Some e
                  | None \<Rightarrow> if status rep = 204 then None else Some BadResponse, w'))"
  using uri_Inr [OF assms(1)] assms(2,3)
  by (auto simp add: Remove_def join2 Itoa_not_Nil Let_def split: prod.splits option.splits)

text \<open>The amended claim at the index people, node 42 and value blue, one request sent before.\<close>

theorem Remove_empty_key_ignores_value_witness:
  "Remove sample_env people node42 '''' ''blue''
     [\<lparr>Url = ''http://host/index'', Method = ''GET'', Data = NoData, Result = IndexMapSlot,
       Error = True, ExpectedStatus = 0\<rparr>] =
     Return (None,
       [\<lparr>Url = ''http://host/index'', Method = ''GET'', Data = NoData, Result = IndexMapSlot,
         Error = True, ExpectedStatus = 0\<rparr>,
        \<lparr>Url = ''http://host/index/people/42'', Method = ''DELETE'', Data = NoData,
         Result = NoSlot, Error = True, ExpectedStatus = 0\<rparr>])"
proof -
  note t = Remove_empty_key_ignores_value [OF people_parse people_uri_not_Nil people_db,
      of node42 "''blue''"
      "[\<lparr>Url = ''http://host/index'', Method = ''GET'', Data = NoData, Result = IndexMapSlot,
         Error = True, ExpectedStatus = 0\<rparr>]"]
  from conjunct2 [OF t] show ?thesis
    by (simp add: sample_db_def recording_def sample_server_def node42_def Itoa_def)
qed

text \<open>
  The claim as stated fails: with key empty and value red the call is not rejected. It
  returns no error, and the world holds the DELETE request it has sent.
\<close>

theorem Remove_empty_key_counterexample:
  "Remove sample_env people node42 '''' ''red'' [] =
     Return (None, [\<lparr>Url = ''http://host/index/people/42'', Method = ''DELETE'',
                      Data = NoData, Result = NoSlot, Error = True, ExpectedStatus = 0\<rparr>])"
  by (simp add: Remove_def uri_def people_def node42_def sample_env_def sample_db_def
      recording_def sample_server_def join_def Itoa_def)

subsection \<open>The descriptor returned by Get\<close>

text \<open>
  Claim C3: a descriptor returned on the success path of NodeIndex is resolved, that is, its
  self URI (HrefIndex joined with Name) is set and the descriptor is valid as input to
  Delete, Add, Remove, Find and Query.

  The code does not do this. createIndex assigns \<^verbatim>\<open>idx.db\<close> and
  \<^verbatim>\<open>idx.HrefIndex\<close>; \<^verbatim>\<open>index\<close> assigns neither. On every path the descriptor
  of \<^verbatim>\<open>index\<close> has an empty HrefIndex and a nil db, so Delete, Add and Remove panic on
  it. With the sample inputs, the descriptor of createIndex has the URI
  \<^verbatim>\<open>http://host/index/people\<close>, and the descriptor \<^verbatim>\<open>index\<close> returns with no error
  for the same name has the URI \<^verbatim>\<open>people\<close>, which does not parse.
\<close>

theorem Get_leaves_descriptor_unresolved:
  "HrefIndex (fst (fst (index env d href name w))) = '''' \<and>
   db (fst (fst (index env d href name w))) = None \<and>
   Delete env (fst (fst (index env d href name w))) w2 = Panic \<and>
   Add env (fst (fst (index env d href name w))) n key val w2 = Panic \<and>
   Remove env (fst (fst (index env d href name w))) n key val w2 = Panic \<and>
   HrefIndex (fst (fst (createIndex sample_db ''http://host/index'' ''people'' ''exact''
       ''lucene'' []))) = ''http://host/index'' \<and>
   uri sample_env (fst (fst (createIndex sample_db ''http://host/index'' ''people'' ''exact''
       ''lucene'' []))) = Return (''http://host/index/people'', None) \<and>
   snd (fst (index sample_env sample_db ''http://host/index'' ''people'' [])) = None \<and>
   uri sample_env (fst (fst (index sample_env sample_db ''http://host/index'' ''people'' []))) =
     Panic \<and>
   Find sample_env (fst (fst (index sample_env sample_db ''http://host/index'' ''people'' [])))
       ''color'' ''red'' [] = Panic \<and>
   Query sample_env (fst (fst (index sample_env sample_db ''http://host/index'' ''people'' [])))
       ''name:x'' [] = Panic"
proof -
  let ?got = "fst (fst (index env d href name w))"
  have h: "HrefIndex ?got = ''''" and n: "db ?got = None"
    by (simp_all add: index_def populate_def new_index_def Let_def
        split: sum.splits prod.splits option.splits)
  have p: "\<And>w2. Delete env ?got w2 = Panic" "\<And>w2. Add env ?got n key val w2 = Panic"
    "\<And>w2. Remove env ?got n key val w2 = Panic"
    using n by (simp_all add: Delete_def Add_def Remove_def uri_def Let_def split: sum.splits)
  have g: "fst (index sample_env sample_db ''http://host/index'' ''people'' []) =
     (\<lparr>db = None, Name = ''people'', HrefTemplate = '''', Provider = '''', IndexType = '''',
       CaseSensitive = True, HrefIndex = ''''\<rparr>, None)"
    by (simp add: index_def sample_env_def sample_db_def recording_def sample_server_def
        populate_def new_index_def new_indexResponse_def join_def Let_def)
  have u: "uri sample_env
      \<lparr>db = None, Name = ''people'', HrefTemplate = '''', Provider = '''', IndexType = '''',
       CaseSensitive = True, HrefIndex = ''''\<rparr> = Panic"
    by (simp add: uri_def sample_env_def join_def)
  show ?thesis
    using h n p u
    by (simp add: createIndex_people g)
       (simp add: people_def uri_def sample_env_def join_def Find_def Query_def)
qed

text \<open>
  The same at the sample inputs: the descriptor \<^verbatim>\<open>index\<close> returns for people has no
  HrefIndex and no db, and Delete, Add and Remove panic on it.
\<close>

theorem Get_leaves_descriptor_unresolved_witness:
  "HrefIndex (fst (fst (index sample_env sample_db ''http://host/index'' ''people'' []))) = '''' \<and>
   db (fst (fst (index sample_env sample_db ''http://host/index'' ''people'' []))) = None \<and>
   Delete sample_env (fst (fst (index sample_env sample_db ''http://host/index'' ''people'' [])))
       [] = Panic \<and>
   Add sample_env (fst (fst (index sample_env sample_db ''http://host/index'' ''people'' [])))
       node42 ''color'' ''red'' [] = Panic \<and>
   Remove sample_env (fst (fst (index sample_env sample_db ''http://host/index'' ''people'' [])))
       node42 ''color'' ''red'' [] = Panic"
  using Get_leaves_descriptor_unresolved [where env = sample_env and d = sample_db
      and href = "''http://host/index''" and name = "''people''" and w = "[]" and ?w2.0 = "[]"
      and n = node42 and key = "''color''" and val = "''red''"]
  by blast


subsection \<open>The body of the creation request\<close>

text \<open>
  Claim C4: the creation request always contains name, and the config object is part of the
  serialized request if and only if idxType or provider is non-empty; when both are blank
  no config object is sent, not even an empty one.

  The code does not do this. Config is tagged \<^verbatim>\<open>omitempty\<close>, but it is a struct value
  and not a pointer, and a struct value is never empty for the encoder. With both blank
  the payload holds the zero value of \<^verbatim>\<open>c\<close>, whose two fields are left out, and the
  request body has name and an empty config object. With one of them given the config object
  holds that one.
\<close>

theorem empty_config_is_sent:
  "map (\<lambda>r. Marshal (Data r))
     (snd (createIndex \<lparr>HrefNodeIndex = h, rc = recording f\<rparr> href name '''' '''' [])) =
     [Some (JObject [(''name'', JString name), (''config'', JObject [])])] \<and>
   map (\<lambda>r. Marshal (Data r)) (snd (CreateNodeIndex sample_db ''people'' '''' '''' [])) =
     [Some (JObject [(''name'', JString ''people''), (''config'', JObject [])])] \<and>
   map (\<lambda>r. Marshal (Data r)) (snd (CreateNodeIndex sample_db ''people'' ''exact'' '''' [])) =
     [Some (JObject [(''name'', JString ''people''),
                     (''config'', JObject [(''type'', JString ''exact'')])])]"
  by (simp add: CreateNodeIndex_def createIndex_def sample_db_def recording_def fields_p_def
      fields_c_def field_def Let_def split: option.splits)

text \<open>The same for the index orders on the sample server.\<close>

theorem empty_config_is_sent_witness:
  "map (\<lambda>r. Marshal (Data r))
     (snd (createIndex \<lparr>HrefNodeIndex = ''http://host/index'', rc = recording sample_server\<rparr>
             ''http://host/index'' ''orders'' '''' '''' [])) =
     [Some (JObject [(''name'', JString ''orders''), (''config'', JObject [])])]"
  using empty_config_is_sent [where h = "''http://host/index''" and f = sample_server
      and href = "''http://host/index''" and name = "''orders''"]
  by blast


subsection \<open>Case sensitivity\<close>



subsection \<open>The path of Remove\<close>

text \<open>
  Claim C6: Remove composes the deletion path by a three-way branch. With key and value both
  non-empty the path is self/key/value/id, with key non-empty and value empty it is
  self/key/id, and with both empty it is self/id, where id is the node's integer identifier
  in decimal and self the URI of the index.

  Here self is the parsed URI of the index, which is not empty, and the descriptor has its
  database handle. Remove then sends one DELETE request to that path and returns the
  transport's error if there is one, no error on status 204, BadResponse otherwise.
\<close>

theorem Remove_path:
  assumes "ParseRequestURI env (join [HrefIndex idx, Name idx]) = Inr self"
      and "self \<noteq> []" and "db idx = Some d"
  shows "Remove env idx n key val w =
     (case rc d \<lparr>Url = (if key \<noteq> [] \<and> val \<noteq> []
                           then self @ ''/'' @ key @ ''/'' @ val @ ''/'' @ Itoa (Id_Node n)
                         else if key \<noteq> [] \<and> val = []
                           then self @ ''/'' @ key @ ''/'' @ Itoa (Id_Node n)
                         else self @ ''/'' @ Itoa (Id_Node n)),
                  Method = ''DELETE'', Data = NoData, Result = NoSlot, Error = True,
                  ExpectedStatus = 0\<rparr> w of
        (rep, w') \<Rightarrow>
          Return (case err rep of
                    Some e \<Rightarrow> Some e
                  | None \<Rightarrow> if status rep = 204 then None else Some BadResponse, w'))"
  using uri_Inr [OF assms(1)] assms(2,3)
  by (auto simp add: Remove_def join2 join3 join3_empty_last Itoa_not_Nil Let_def
      split: prod.splits option.splits)

text \<open>The three branches at the index people and node 42.\<close>

theorem Remove_path_witness:
  "Remove sample_env people node42 ''color'' ''red'' [] =
     Return (None, [\<lparr>Url = ''http://host/index/people/color/red/42'', Method = ''DELETE'',
                      Data = NoData, Result = NoSlot, Error = True, ExpectedStatus = 0\<rparr>]) \<and>
   Remove sample_env people node42 ''color'' '''' [] =
     Return (None, [\<lparr>Url = ''http://host/index/people/color/42'', Method = ''DELETE'',
                      Data = NoData, Result = NoSlot, Error = True, ExpectedStatus = 0\<rparr>]) \<and>
   Remove sample_env people node42 '''' '''' [] =
     Return (None, [\<lparr>Url = ''http://host/index/people/42'', Method = ''DELETE'',
                      Data = NoData, Result = NoSlot, Error = True, ExpectedStatus = 0\<rparr>])"
  using Remove_path [OF people_parse people_uri_not_Nil people_db,
          of node42 "''color''" "''red''" "[]"]
        Remove_path [OF people_parse people_uri_not_Nil people_db,
          of node42 "''color''" "''''" "[]"]
        Remove_path [OF people_parse people_uri_not_Nil people_db, of node42 "''''" "''''" "[]"]
  by (simp add: sample_db_def recording_def sample_server_def node42_def Itoa_def)

subsection \<open>The status codes of Get\<close>

text \<open>
  Claim C7: when a NodeIndex call completes at the transport level, status 200 yields a
  descriptor and no error, status 404 yields the error NotFound and every other status the
  error BadResponse; when the transport fails, its error is returned unchanged.

  Here \<open>u\<close> is the parsed URI of the index and \<open>rep\<close> the transport's reply to the GET
  request for it.
\<close>

theorem NodeIndex_status_classification:
  assumes "ParseRequestURI env (join [HrefNodeIndex d, name]) = Inr u"
      and "rc d \<lparr>Url = u, Method = ''GET'', Data = NoData, Result = NoSlot, Error = True,
                  ExpectedStatus = 0\<rparr> w = (rep, w')"
  shows "(err rep = Some e \<longrightarrow> fst (NodeIndex env d name w) = (None, Some e)) \<and>
         (err rep = None \<and> status rep = 200 \<longrightarrow>
            (\<exists>idx. fst (NodeIndex env d name w) = (Some (NodeIndex_of idx), None) \<and>
                   Name idx = name)) \<and>
         (err rep = None \<and> status rep = 404 \<longrightarrow>
            fst (NodeIndex env d name w) = (None, Some NotFound)) \<and>
         (err rep = None \<and> status rep \<noteq> 200 \<and> status rep \<noteq> 404 \<longrightarrow>
            fst (NodeIndex env d name w) = (None, Some BadResponse))"
  using assms
  by (auto simp add: NodeIndex_def index_def populate_def new_index_def Let_def
      split: prod.splits option.splits)

text \<open>The statuses 200, 404, 500 and 201, and a transport that fails.\<close>

theorem NodeIndex_status_classification_witness:
  "(\<exists>idx. fst (NodeIndex sample_env (status_db 200) ''people'' []) =
            (Some (NodeIndex_of idx), None) \<and> Name idx = ''people'') \<and>
   fst (NodeIndex sample_env (status_db 404) ''people'' []) = (None, Some NotFound) \<and>
   fst (NodeIndex sample_env (status_db 500) ''people'' []) = (None, Some BadResponse) \<and>
   fst (NodeIndex sample_env (status_db 201) ''people'' []) = (None, Some BadResponse) \<and>
   fst (NodeIndex sample_env failing_db ''people'' []) =
     (None, Some (Other ''connection refused''))"
proof -
  let ?req = "\<lparr>Url = ''http://host/index/people'', Method = ''GET'', Data = NoData,
                Result = NoSlot, Error = True, ExpectedStatus = 0\<rparr>"
  have p: "\<And>n. ParseRequestURI sample_env (join [HrefNodeIndex (status_db n), ''people'']) =
      Inr ''http://host/index/people''"
    by (simp add: sample_env_def join_def status_db_def)
  have pf: "ParseRequestURI sample_env (join [HrefNodeIndex failing_db, ''people'']) =
      Inr ''http://host/index/people''"
    by (simp add: sample_env_def join_def failing_db_def)
  have r: "\<And>n. rc (status_db n) ?req [] = (\<lparr>status = n, err = None, body = NoResult\<rparr>, [?req])"
    by (simp add: status_db_def recording_def)
  have rf: "rc failing_db ?req [] =
      (\<lparr>status = 0, err = Some (Other ''connection refused''), body = NoResult\<rparr>, [?req])"
    by (simp add: failing_db_def recording_def)
  from NodeIndex_status_classification [OF p r, of 200]
       NodeIndex_status_classification [OF p r, of 404]
       NodeIndex_status_classification [OF p r, of 500]
       NodeIndex_status_classification [OF p r, of 201]
       NodeIndex_status_classification [OF pf rf, of "Other ''connection refused''"]
  show ?thesis by simp
qed

subsection \<open>The result of Find\<close>

text \<open>
  Claim C8: the map a successful Find returns is keyed by node identifier and its keys are
  unique: two representations with the same identifier in the server's array collapse to
  one entry.

  Here \<open>rs\<close> is the array the transport decoded on status 200. The keys of the map are
  the identifiers of the hydrated elements of \<open>rs\<close>, there are as many entries as distinct
  identifiers, every entry is a hydrated element stored under its own identifier, and an
  identifier keeps the element listed last with it.
\<close>

theorem Find_keys_unique:
  assumes "ParseRequestURI env (join [HrefIndex idx, Name idx]) = Inr self"
      and "ParseRequestURI env (join [self, key, val]) = Inr u"
      and "db idx = Some d"
      and "rc d \<lparr>Url = u, Method = ''GET'', Data = NoData, Result = NodeListSlot,
                  Error = True, ExpectedStatus = 0\<rparr> w = (rep, w')"
      and "err rep = None" and "status rep = 200" and "body rep = NodeListResult rs"
  shows "\<exists>nm. Find env idx key val w = Return ((nm, None), w') \<and>
     dom nm = (\<lambda>r. Id_Node (populate_Node env r (new_Node\<lparr>Node_db := Some d\<rparr>))) ` set rs \<and>
     card (dom nm) =
       length (remdups
         (map (\<lambda>r. Id_Node (populate_Node env r (new_Node\<lparr>Node_db := Some d\<rparr>))) rs)) \<and>
     (\<forall>k n. nm k = Some n \<longrightarrow>
        Id_Node n = k \<and>
        n \<in> (\<lambda>r. populate_Node env r (new_Node\<lparr>Node_db := Some d\<rparr>)) ` set rs) \<and>
     (\<forall>rs1 r rs2. rs = rs1 @ r # rs2 \<and>
        Id_Node (populate_Node env r (new_Node\<lparr>Node_db := Some d\<rparr>)) \<notin>
          (\<lambda>r. Id_Node (populate_Node env r (new_Node\<lparr>Node_db := Some d\<rparr>))) ` set rs2 \<longrightarrow>
        nm (Id_Node (populate_Node env r (new_Node\<lparr>Node_db := Some d\<rparr>))) =
          Some (populate_Node env r (new_Node\<lparr>Node_db := Some d\<rparr>)))"
proof -
  let ?nm = "range_nodes env (Some d) Map.empty rs"
  let ?f = "\<lambda>r. Id_Node (populate_Node env r (new_Node\<lparr>Node_db := Some d\<rparr>))"
  have ret: "Find env idx key val w = Return ((?nm, None), w')"
    using uri_Inr [OF assms(1)] assms(2-7) by (simp add: Find_def)
  have d: "dom ?nm = ?f ` set rs"
    by (simp add: range_nodes_dom)
  have "card (?f ` set rs) = length (remdups (map ?f rs))"
    by (metis length_remdups_card_conv set_map)
  with d have c: "card (dom ?nm) = length (remdups (map ?f rs))"
    by simp
  have e: "\<forall>k n. ?nm k = Some n \<longrightarrow>
      Id_Node n = k \<and> n \<in> (\<lambda>r. populate_Node env r (new_Node\<lparr>Node_db := Some d\<rparr>)) ` set rs"
    using range_nodes_entry [of env "Some d" Map.empty rs] by auto
  have l: "\<forall>rs1 r rs2. rs = rs1 @ r # rs2 \<and> ?f r \<notin> ?f ` set rs2 \<longrightarrow>
      ?nm (?f r) = Some (populate_Node env r (new_Node\<lparr>Node_db := Some d\<rparr>))"
    using range_nodes_last [of env _ "Some d" _ Map.empty] by blast
  from ret d c e l show ?thesis by blast
qed

text \<open>
  The sample server lists node 42, node 7 and node 42 again: the map has the two keys 42
  and 7.
\<close>

theorem Find_keys_unique_witness:
  "\<exists>nm. Find sample_env people ''color'' ''red'' [] =
      Return ((nm, None),
        [\<lparr>Url = ''http://host/index/people/color/red'', Method = ''GET'', Data = NoData,
          Result = NodeListSlot, Error = True, ExpectedStatus = 0\<rparr>]) \<and>
     dom nm = {42, 7} \<and> card (dom nm) = 2 \<and>
     nm 42 = Some \<lparr>Node_db = Some sample_db, HrefSelf = ''/node/42'', Id_Node = 42\<rparr>"
proof -
  let ?req = "\<lparr>Url = ''http://host/index/people/color/red'', Method = ''GET'', Data = NoData,
                Result = NodeListSlot, Error = True, ExpectedStatus = 0\<rparr>"
  let ?rs = "[(42::int, ''/node/42''), (7, ''/node/7''), (42, ''/node/42'')]"
  let ?rep = "\<lparr>status = 200, err = None, body = NodeListResult ?rs\<rparr>"
  let ?h = "\<lambda>r. populate_Node sample_env r (new_Node\<lparr>Node_db := Some sample_db\<rparr>)"
  have p2: "ParseRequestURI sample_env (join [''http://host/index/people'', ''color'', ''red'']) =
      Inr ''http://host/index/people/color/red''"
    by (simp add: sample_env_def join_def)
  have r: "rc sample_db ?req [] = (?rep, [?req])"
    by (simp add: sample_db_def recording_def sample_server_def)
  from Find_keys_unique [OF people_parse p2 people_db r, of ?rs]
  obtain nm where f: "Find sample_env people ''color'' ''red'' [] = Return ((nm, None), [?req])"
    and d: "dom nm = (\<lambda>r. Id_Node (?h r)) ` set ?rs"
    and c: "card (dom nm) = length (remdups (map (\<lambda>r. Id_Node (?h r)) ?rs))"
    and l: "\<forall>rs1 r rs2. ?rs = rs1 @ r # rs2 \<and>
        Id_Node (?h r) \<notin> (\<lambda>r. Id_Node (?h r)) ` set rs2 \<longrightarrow>
        nm (Id_Node (?h r)) = Some (?h r)"
    by auto
  have d': "dom nm = {42, 7}"
    using d by (auto simp add: sample_env_def new_Node_def)
  have c': "card (dom nm) = 2"
    using c by (simp add: sample_env_def new_Node_def)
  have "?rs = [(42, ''/node/42''), (7, ''/node/7'')] @ (42, ''/node/42'') # []"
    by simp
  with l have "nm (Id_Node (?h (42, ''/node/42''))) = Some (?h (42, ''/node/42''))"
    by (metis empty_iff image_empty list.set(1))
  then have e: "nm 42 = Some \<lparr>Node_db = Some sample_db, HrefSelf = ''/node/42'', Id_Node = 42\<rparr>"
    by (simp add: sample_env_def new_Node_def)
  from f d' c' e show ?thesis by blast
qed

subsection \<open>A URI that does not parse\<close>

text \<open>
  Claim C9: when HrefIndex joined with Name does not parse as a request URI, the helper
  \<^verbatim>\<open>uri\<close> dereferences the nil URL of the failed parse and does not return the error,
  so Delete, Add, Remove, Find and Query panic and do not return an error.
\<close>

theorem uri_panics_on_parse_failure:
  assumes "ParseRequestURI env (join [HrefIndex idx, Name idx]) = Inl e"
  shows "uri env idx = Panic \<and> Delete env idx w = Panic \<and> Add env idx n key val w = Panic \<and>
         Remove env idx n key val w = Panic \<and> Find env idx key val w = Panic \<and>
         Query env idx query w = Panic"
  using uri_Inl [OF assms]
  by (simp add: Delete_def Add_def Remove_def Find_def Query_def)

text \<open>The index people with a base that has no scheme and no leading slash.\<close>

theorem uri_panics_on_parse_failure_witness:
  "ParseRequestURI sample_env
     (join [HrefIndex (people\<lparr>HrefIndex := ''host/index''\<rparr>),
            Name (people\<lparr>HrefIndex := ''host/index''\<rparr>)]) = Inl (Other ''host/index/people'') \<and>
   uri sample_env (people\<lparr>HrefIndex := ''host/index''\<rparr>) = Panic \<and>
   Delete sample_env (people\<lparr>HrefIndex := ''host/index''\<rparr>) [] = Panic \<and>
   Add sample_env (people\<lparr>HrefIndex := ''host/index''\<rparr>) node42 ''color'' ''red'' [] = Panic \<and>
   Remove sample_env (people\<lparr>HrefIndex := ''host/index''\<rparr>) node42 ''color'' ''red'' [] =
     Panic \<and>
   Find sample_env (people\<lparr>HrefIndex := ''host/index''\<rparr>) ''color'' ''red'' [] = Panic \<and>
   Query sample_env (people\<lparr>HrefIndex := ''host/index''\<rparr>) ''name:x'' [] = Panic"
proof -
  have h: "ParseRequestURI sample_env
      (join [HrefIndex (people\<lparr>HrefIndex := ''host/index''\<rparr>),
             Name (people\<lparr>HrefIndex := ''host/index''\<rparr>)]) = Inl (Other ''host/index/people'')"
    by (simp add: sample_env_def people_def join_def)
  from h uri_panics_on_parse_failure [OF h] show ?thesis by simp
qed

subsection \<open>The public wrappers on error\<close>

text \<open>
  Claim C10: whenever createIndex, index or indexes returns an error, the wrapper
  CreateNodeIndex, NodeIndex or NodeIndexes returns nil together with that error, so a
  caller never gets a descriptor (or a slice) alongside an error: the value returned is nil
  exactly when the error is not.
\<close>

theorem wrappers_return_nil_with_error:
  "(snd (fst (createIndex d (HrefNodeIndex d) name idxType provider w)) = Some e \<longrightarrow>
      fst (CreateNodeIndex d name idxType provider w) = (None, Some e)) \<and>
   (snd (fst (index env d (HrefNodeIndex d) name w)) = Some e \<longrightarrow>
      fst (NodeIndex env d name w) = (None, Some e)) \<and>
   (snd (fst (indexes d (HrefNodeIndex d) w)) = Some e \<longrightarrow>
      fst (NodeIndexes d w) = (None, Some e)) \<and>
   (fst (fst (CreateNodeIndex d name idxType provider w)) = None) =
      (snd (fst (CreateNodeIndex d name idxType provider w)) \<noteq> None) \<and>
   (fst (fst (NodeIndex env d name w)) = None) = (snd (fst (NodeIndex env d name w)) \<noteq> None) \<and>
   (fst (fst (NodeIndexes d w)) = None) = (snd (fst (NodeIndexes d w)) \<noteq> None)"
  by (auto simp add: CreateNodeIndex_def NodeIndex_def NodeIndexes_def
      split: prod.splits option.splits)

text \<open>
  A transport that fails: the three internal operations return a descriptor (or a slice)
  with the error, the three wrappers nil with the error.
\<close>

theorem wrappers_return_nil_with_error_witness:
  "createIndex failing_db (HrefNodeIndex failing_db) ''people'' ''exact'' ''lucene'' [] =
     ((new_index\<lparr>db := Some failing_db, Name := ''people''\<rparr>, Some (Other ''connection refused'')),
      [\<lparr>Url = ''http://host/index'', Method = ''POST'',
        Data = CreateData
                 \<lparr>Name_p = ''people'', Config = \<lparr>Type = ''exact'', Provider_c = ''lucene''\<rparr>\<rparr>,
        Result = IndexSlot, Error = True, ExpectedStatus = 201\<rparr>]) \<and>
   fst (CreateNodeIndex failing_db ''people'' ''exact'' ''lucene'' []) =
     (None, Some (Other ''connection refused'')) \<and>
   snd (fst (index sample_env failing_db (HrefNodeIndex failing_db) ''people'' [])) =
     Some (Other ''connection refused'') \<and>
   fst (NodeIndex sample_env failing_db ''people'' []) =
     (None, Some (Other ''connection refused'')) \<and>
   snd (fst (indexes failing_db (HrefNodeIndex failing_db) [])) =
     Some (Other ''connection refused'') \<and>
   fst (NodeIndexes failing_db []) = (None, Some (Other ''connection refused''))"
proof -
  have a: "createIndex failing_db (HrefNodeIndex failing_db) ''people'' ''exact'' ''lucene'' [] =
     ((new_index\<lparr>db := Some failing_db, Name := ''people''\<rparr>, Some (Other ''connection refused'')),
      [\<lparr>Url = ''http://host/index'', Method = ''POST'',
        Data = CreateData
                 \<lparr>Name_p = ''people'', Config = \<lparr>Type = ''exact'', Provider_c = ''lucene''\<rparr>\<rparr>,
        Result = IndexSlot, Error = True, ExpectedStatus = 201\<rparr>])"
    by (simp add: createIndex_def failing_db_def recording_def Let_def)
  have b: "snd (fst (index sample_env failing_db (HrefNodeIndex failing_db) ''people'' [])) =
     Some (Other ''connection refused'')"
    by (simp add: index_def failing_db_def sample_env_def recording_def join_def Let_def)
  have c: "snd (fst (indexes failing_db (HrefNodeIndex failing_db) [])) =
     Some (Other ''connection refused'')"
    by (simp add: indexes_def failing_db_def recording_def Let_def)
  from a have a': "snd (fst (createIndex failing_db (HrefNodeIndex failing_db) ''people''
      ''exact'' ''lucene'' [])) = Some (Other ''connection refused'')"
    by simp
  from a' b c
    wrappers_return_nil_with_error [of failing_db "''people''" "''exact''" "''lucene''" "[]"
      "Other ''connection refused''" sample_env]
  have "fst (CreateNodeIndex failing_db ''people'' ''exact'' ''lucene'' []) =
          (None, Some (Other ''connection refused'')) \<and>
        fst (NodeIndex sample_env failing_db ''people'' []) =
          (None, Some (Other ''connection refused'')) \<and>
        fst (NodeIndexes failing_db []) = (None, Some (Other ''connection refused''))"
    by simp
  with a b c show ?thesis by simp
qed

end
